theory Spec2Isabelle
  imports Complex_Main
begin

section \<open>Values of the language\<close>

text \<open>
  A TypeScript \<open>number\<close> is an IEEE double. The model keeps its three special values
  and takes the finite doubles as reals: rounding, and overflow of a finite sum to
  \<open>Infinity\<close>, are left out, so nothing below is stated about the value of a finite
  sum or difference. The comparisons, and the arithmetic on \<open>NaN\<close> and the infinities,
  follow the language: every comparison with \<open>NaN\<close> is false, \<open>NaN\<close> is absorbing,
  and \<open>Infinity - Infinity\<close> is \<open>NaN\<close>.
\<close>

datatype number = NaN | NegInf | Num real | PosInf

fun js_le :: "number \<Rightarrow> number \<Rightarrow> bool" where
  "js_le NaN b = False"
| "js_le a NaN = False"
| "js_le NegInf b = True"
| "js_le a PosInf = True"
| "js_le (Num x) (Num y) = (x \<le> y)"
| "js_le PosInf b = False"
| "js_le a NegInf = False"

fun js_gt :: "number \<Rightarrow> number \<Rightarrow> bool" where
  "js_gt NaN b = False"
| "js_gt a NaN = False"
| "js_gt PosInf PosInf = False"
| "js_gt PosInf b = True"
| "js_gt a PosInf = False"
| "js_gt NegInf b = False"
| "js_gt a NegInf = True"
| "js_gt (Num x) (Num y) = (x > y)"

fun js_add :: "number \<Rightarrow> number \<Rightarrow> number" where
  "js_add NaN b = NaN"
| "js_add a NaN = NaN"
| "js_add PosInf NegInf = NaN"
| "js_add NegInf PosInf = NaN"
| "js_add PosInf b = PosInf"
| "js_add a PosInf = PosInf"
| "js_add NegInf b = NegInf"
| "js_add a NegInf = NegInf"
| "js_add (Num x) (Num y) = Num (x + y)"

fun js_neg :: "number \<Rightarrow> number" where
  "js_neg NaN = NaN"
| "js_neg NegInf = PosInf"
| "js_neg PosInf = NegInf"
| "js_neg (Num x) = Num (- x)"

definition js_sub :: "number \<Rightarrow> number \<Rightarrow> number" where
  "js_sub a b = js_add a (js_neg b)"

text \<open>
  A thrown \<open>Error\<close> carries its message; \<open>TypeError\<close> is what the runtime throws when
  a method is called on \<open>undefined\<close>. A method that can throw returns \<open>error + 'a\<close>.
\<close>

datatype error = Error string | TypeError

text \<open>
  A line written by \<open>console.log\<close> is kept as the pieces of its template literal, so
  that no number has to be printed.
\<close>

datatype piece = Str string | Val number

type_synonym line = "piece list"

section \<open>Encapsulation: BankAccount\<close>

record BankAccount =
  balance :: number

definition new_BankAccount :: BankAccount where
  "new_BankAccount = \<lparr>balance = Num 0\<rparr>"

text \<open>
  A method returns its outcome and the object as the call leaves it; a throw comes
  before any assignment, so it returns the object it was given.
\<close>

definition deposit :: "number \<Rightarrow> BankAccount \<Rightarrow> (error + unit) \<times> BankAccount" where
  "deposit amount this =
     (if js_le amount (Num 0) then (Inl (Error ''Deposit amount must be positive''), this)
      else (Inr (), this\<lparr>balance := js_add (balance this) amount\<rparr>))"

definition withdrawal :: "number \<Rightarrow> BankAccount \<Rightarrow> (error + unit) \<times> BankAccount" where
  "withdrawal amount this =
     (if js_le amount (Num 0) then (Inl (Error ''Withdrawal amount must be positive''), this)
      else if js_gt amount (balance this) then (Inl (Error ''Insufficient funds''), this)
      else (Inr (), this\<lparr>balance := js_sub (balance this) amount\<rparr>))"

definition getBalance :: "BankAccount \<Rightarrow> number" where
  "getBalance this = balance this"

text \<open>
  A caller's sequence of calls; a call that throws is caught by the caller and the
  next call is made on the same account.
\<close>

datatype account_call = Deposit number | Withdrawal number

fun account_step :: "account_call \<Rightarrow> BankAccount \<Rightarrow> (error + unit) \<times> BankAccount" where
  "account_step (Deposit a) this = deposit a this"
| "account_step (Withdrawal a) this = withdrawal a this"

fun account_run :: "account_call list \<Rightarrow> BankAccount \<Rightarrow> BankAccount" where
  "account_run [] this = this"
| "account_run (c # cs) this = account_run cs (snd (account_step c this))"

section \<open>Encapsulation: PaymentProcessor\<close>

text \<open>
  A string is the list of its code units, which is what \<open>length\<close>, \<open>slice\<close> and
  \<open>padStart\<close> count. \<open>String.prototype.slice(start)\<close> with the end left out: a
  negative start counts from the end and is clamped at 0, a positive one is clamped at
  the length.
\<close>

definition slice :: "string \<Rightarrow> int \<Rightarrow> string" where
  "slice s start =
     (let len = int (length s);
          from = (if start < 0 then max (len + start) 0 else min start len)
      in drop (nat from) s)"

text \<open>
  \<open>String.prototype.padStart(maxLength, fillString)\<close>: the string itself when it is
  long enough or the filler is empty, otherwise the filler repeated and cut to the
  missing length, put in front.
\<close>

definition padStart :: "string \<Rightarrow> nat \<Rightarrow> string \<Rightarrow> string" where
  "padStart s maxLength fillString =
     (if maxLength \<le> length s \<or> fillString = [] then s
      else take (maxLength - length s)
             (concat (replicate (maxLength - length s) fillString)) @ s)"

text \<open>A call that prints returns the lines it wrote and then its outcome.\<close>

type_synonym 'a printed = "line list \<times> (error + 'a)"

record PaymentProcessor =
  cardNumber :: string
  amount :: number

definition new_PaymentProcessor :: "string \<Rightarrow> number \<Rightarrow> PaymentProcessor" where
  "new_PaymentProcessor c a = \<lparr>cardNumber = c, amount = a\<rparr>"

definition maskCardNumber :: "PaymentProcessor \<Rightarrow> string" where
  "maskCardNumber this = padStart (slice (cardNumber this) (- 4)) (length (cardNumber this)) ''*''"

definition processPayment :: "PaymentProcessor \<Rightarrow> unit printed" where
  "processPayment this =
     (if js_le (amount this) (Num 0) then ([], Inl (Error ''Payment amount must be positive''))
      else ([[Str ''Processing payment of $'', Val (amount this), Str '' for card '',
              Str (maskCardNumber this)]], Inr ()))"

section \<open>Enums: OrderStatus and the Status class\<close>

text \<open>A string enum: each member is, at run time, its string value.\<close>

datatype OrderStatus = PLACED | PENDING | SHIPPED | DELIVERED | CANCELLED

fun OrderStatus_value :: "OrderStatus \<Rightarrow> string" where
  "OrderStatus_value PLACED = ''PLACED''"
| "OrderStatus_value PENDING = ''PENDING''"
| "OrderStatus_value SHIPPED = ''SHIPPED''"
| "OrderStatus_value DELIVERED = ''DELIVERED''"
| "OrderStatus_value CANCELLED = ''CANCELLED''"

definition OrderStatus_members :: "OrderStatus list" where
  "OrderStatus_members = [PLACED, PENDING, SHIPPED, DELIVERED, CANCELLED]"

text \<open>
  Objects live in a store, a list indexed by reference; \<open>new\<close> appends, and \<open>==\<close>
  on two objects compares the references.
\<close>

type_synonym ref = nat

definition deref :: "'a list \<Rightarrow> ref \<Rightarrow> 'a option" where
  "deref h r = (if r < length h then Some (h ! r) else None)"

definition ref_eq :: "ref \<Rightarrow> ref \<Rightarrow> bool" where
  "ref_eq a b = (a = b)"

record Status =
  code :: string
  label :: string

text \<open>The constructor only stores its two arguments; it has no check and no throw.\<close>

definition Status_new :: "string \<Rightarrow> string \<Rightarrow> Status list \<Rightarrow> ref \<times> Status list" where
  "Status_new c l h = (length h, h @ [\<lparr>code = c, label = l\<rparr>])"

text \<open>The static initialisers of the class, run once and in order.\<close>

definition Status_statics :: "(ref \<times> ref \<times> ref) \<times> Status list" where
  "Status_statics =
     (let (p, h1) = Status_new ''PENDING'' ''Waiting to start'' [];
          (i, h2) = Status_new ''IN_PROGRESS'' ''Work in progress'' h1;
          (c, h3) = Status_new ''COMPLETED'' ''Task completed'' h2
      in ((p, i, c), h3))"

definition Pending :: ref where
  "Pending = fst (fst Status_statics)"

definition InProgress :: ref where
  "InProgress = fst (snd (fst Status_statics))"

definition Completed :: ref where
  "Completed = snd (snd (fst Status_statics))"

definition Status_heap :: "Status list" where
  "Status_heap = snd Status_statics"

definition Status_variants :: "ref list" where
  "Status_variants = [Pending, InProgress, Completed]"

definition code_of :: "Status list \<Rightarrow> ref \<Rightarrow> string option" where
  "code_of h r = map_option code (deref h r)"

definition label_of :: "Status list \<Rightarrow> ref \<Rightarrow> string option" where
  "label_of h r = map_option label (deref h r)"

definition isFinal :: "ref \<Rightarrow> bool" where
  "isFinal this = ref_eq this Completed"


section \<open>Interfaces: PaymentGateway and checkoutService\<close>

text \<open>
  The objects of this example: the two gateways, which have no fields, and the service,
  whose one field \<open>paymentGateway\<close> holds a reference.
\<close>

datatype object = StripePayment | RazorPayPayment | checkoutService ref

definition new_StripePayment :: "object list \<Rightarrow> ref \<times> object list" where
  "new_StripePayment h = (length h, h @ [StripePayment])"

definition new_RazorPayPayment :: "object list \<Rightarrow> ref \<times> object list" where
  "new_RazorPayPayment h = (length h, h @ [RazorPayPayment])"

definition new_checkoutService :: "ref \<Rightarrow> object list \<Rightarrow> ref \<times> object list" where
  "new_checkoutService g h = (length h, h @ [checkoutService g])"

text \<open>
  Dynamic dispatch on the class of the receiver; a receiver without the method is the
  runtime's \<open>TypeError\<close>.
\<close>

definition initiatePayment :: "ref \<Rightarrow> number \<Rightarrow> object list \<Rightarrow> unit printed" where
  "initiatePayment this a h =
     (case deref h this of
        Some StripePayment \<Rightarrow> ([[Str ''Payment proccessing via Strip : '', Val a, Str '' '']], Inr ())
      | Some RazorPayPayment \<Rightarrow> ([[Str ''Payment processing via Razorpay : '', Val a]], Inr ())
      | _ \<Rightarrow> ([], Inl TypeError))"

definition setPaymentGateway :: "ref \<Rightarrow> ref \<Rightarrow> object list \<Rightarrow> (error + unit) \<times> object list" where
  "setPaymentGateway this g h =
     (case deref h this of
        Some (checkoutService old) \<Rightarrow> (Inr (), h[this := checkoutService g])
      | _ \<Rightarrow> (Inl TypeError, h))"

definition checkout :: "ref \<Rightarrow> number \<Rightarrow> object list \<Rightarrow> unit printed \<times> object list" where
  "checkout this a h =
     (case deref h this of
        Some (checkoutService g) \<Rightarrow> (initiatePayment g a h, h)
      | _ \<Rightarrow> (([], Inl TypeError), h))"

text \<open>Several checkouts in a row on one service, each on the store the last one left.\<close>

fun checkouts :: "ref \<Rightarrow> number list \<Rightarrow> object list \<Rightarrow> unit printed list \<times> object list" where
  "checkouts this [] h = ([], h)"
| "checkouts this (a # as) h =
     (let (r, h1) = checkout this a h; (rs, h2) = checkouts this as h1 in (r # rs, h2))"

text \<open>The field read: the gateway a service holds.\<close>

definition paymentGateway :: "object list \<Rightarrow> ref \<Rightarrow> ref option" where
  "paymentGateway h this =
     (case deref h this of Some (checkoutService g) \<Rightarrow> Some g | _ \<Rightarrow> None)"

section \<open>Polymorphism: MediaFile and the media player\<close>

text \<open>
  \<open>MediaFile\<close> is abstract: beside its two fields an object carries what its subclass
  (\<open>AudioFile\<close>, \<open>VideoFile\<close>) prints in \<open>play\<close>, \<open>pause\<close> and \<open>stop\<close>.
\<close>

record MediaFile =
  filename :: string
  fileSize :: number
  play :: "line list"
  pause :: "line list"
  stop :: "line list"

definition getInfo :: "MediaFile \<Rightarrow> line" where
  "getInfo this = [Str (filename this), Str '' ('', Val (fileSize this), Str '' MB)'']"

record MediaPlayer =
  currentMedia :: "MediaFile option"

definition new_MediaPlayer :: MediaPlayer where
  "new_MediaPlayer = \<lparr>currentMedia = None\<rparr>"

definition loadMedia :: "MediaFile \<Rightarrow> MediaPlayer \<Rightarrow> unit printed \<times> MediaPlayer" where
  "loadMedia media this =
     (([Str ''Loaded media: '' # getInfo media], Inr ()), this\<lparr>currentMedia := Some media\<rparr>)"

definition playMedia :: "MediaPlayer \<Rightarrow> unit printed \<times> MediaPlayer" where
  "playMedia this =
     (case currentMedia this of
        Some m \<Rightarrow> ((play m, Inr ()), this)
      | None \<Rightarrow> (([[Str ''No media loaded'']], Inr ()), this))"

definition pauseMedia :: "MediaPlayer \<Rightarrow> unit printed \<times> MediaPlayer" where
  "pauseMedia this =
     (case currentMedia this of
        Some m \<Rightarrow> ((pause m, Inr ()), this)
      | None \<Rightarrow> (([[Str ''No media loaded'']], Inr ()), this))"

definition stopMedia :: "MediaPlayer \<Rightarrow> unit printed \<times> MediaPlayer" where
  "stopMedia this =
     (case currentMedia this of
        Some m \<Rightarrow> ((stop m, Inr ()), this)
      | None \<Rightarrow> (([[Str ''No media loaded'']], Inr ()), this))"

section \<open>Inheritance: PaymentMethod and Order\<close>

datatype PaymentMethod =
    CreditCardPayment number string string string
  | PayPalPayment number string
  | BitcoinPayment number string

fun getAmount :: "PaymentMethod \<Rightarrow> number" where
  "getAmount (CreditCardPayment a c e v) = a"
| "getAmount (PayPalPayment a m) = a"
| "getAmount (BitcoinPayment a w) = a"

definition CreditCardPayment_maskCardNumber :: "string \<Rightarrow> string" where
  "CreditCardPayment_maskCardNumber c = padStart (slice c (- 4)) (length c) ''*''"

fun PaymentMethod_processPayment :: "PaymentMethod \<Rightarrow> bool printed" where
  "PaymentMethod_processPayment (CreditCardPayment a c e v) =
     ([[Str ''Processing credit card payment of $'', Val a],
       [Str ''Card Number: '', Str (CreditCardPayment_maskCardNumber c)]], Inr True)"
| "PaymentMethod_processPayment (PayPalPayment a m) =
     ([[Str ''Processing PayPal payment of $'', Val a],
       [Str ''PayPal Account: '', Str m]], Inr True)"
| "PaymentMethod_processPayment (BitcoinPayment a w) =
     ([[Str ''Processing Bitcoin payment of $'', Val a],
       [Str ''Bitcoin Wallet: '', Str w]], Inr True)"

text \<open>
  The field \<open>paymentMethod\<close> is declared with a definite-assignment assertion and the
  constructor does not set it: it is \<open>undefined\<close> (\<open>None\<close>) until \<open>setPaymentMethod\<close>.
\<close>

record Order =
  orderId :: string
  items :: "string list"
  paymentMethod :: "PaymentMethod option"

definition new_Order :: "string \<Rightarrow> string list \<Rightarrow> Order" where
  "new_Order i its = \<lparr>orderId = i, items = its, paymentMethod = None\<rparr>"

definition setPaymentMethod :: "PaymentMethod \<Rightarrow> Order \<Rightarrow> Order" where
  "setPaymentMethod pm this = this\<lparr>paymentMethod := Some pm\<rparr>"

definition Order_checkout :: "Order \<Rightarrow> bool printed \<times> Order" where
  "Order_checkout this =
     (let l = [Str ''Processing order '', Str (orderId this), Str '' with '',
               Val (Num (real (length (items this)))), Str '' items'']
      in case paymentMethod this of
           None \<Rightarrow> (([l], Inl TypeError), this)
         | Some pm \<Rightarrow> ((l # fst (PaymentMethod_processPayment pm),
                        snd (PaymentMethod_processPayment pm)), this))"

section \<open>Interface segregation: the media player interface\<close>

text \<open>
  \<open>AudioOnlyPlayer implements MediaPlayer\<close>, the interface of seven operations; the
  class has no fields, so a method is its printed lines and its outcome.
\<close>

definition AudioOnlyPlayer_playAudio :: "string \<Rightarrow> unit printed" where
  "AudioOnlyPlayer_playAudio audioFile = ([[Str ''Playing audio file: '', Str audioFile]], Inr ())"

definition AudioOnlyPlayer_stopAudio :: "unit printed" where
  "AudioOnlyPlayer_stopAudio = ([[Str ''Audio stopped.'']], Inr ())"

definition AudioOnlyPlayer_adjustAudioVolume :: "number \<Rightarrow> unit printed" where
  "AudioOnlyPlayer_adjustAudioVolume volume = ([[Str ''Audio volume set to: '', Val volume]], Inr ())"

definition AudioOnlyPlayer_playVideo :: "string \<Rightarrow> unit printed" where
  "AudioOnlyPlayer_playVideo videoFile = ([], Inl (Error ''Not supported.''))"

definition AudioOnlyPlayer_stopVideo :: "unit printed" where
  "AudioOnlyPlayer_stopVideo = ([], Inr ())"

definition AudioOnlyPlayer_adjustVideoBrightness :: "number \<Rightarrow> unit printed" where
  "AudioOnlyPlayer_adjustVideoBrightness brightness = ([], Inl (Error ''Not supported.''))"

definition AudioOnlyPlayer_displaySubtitles :: "string \<Rightarrow> unit printed" where
  "AudioOnlyPlayer_displaySubtitles subtitleFile = ([], Inl (Error ''Not supported.''))"

text \<open>The segregated sibling: \<open>SilentVideoPlayer implements VideoPlayerControls\<close>.\<close>

definition SilentVideoPlayer_playVideo :: "string \<Rightarrow> unit printed" where
  "SilentVideoPlayer_playVideo videoFile =
     ([[Str ''SilentVideoPlayer: Playing video - '', Str videoFile]], Inr ())"

definition SilentVideoPlayer_stopVideo :: "unit printed" where
  "SilentVideoPlayer_stopVideo = ([[Str ''SilentVideoPlayer: Video stopped.'']], Inr ())"


section \<open>BankAccount: what the guards keep and what they let through\<close>

lemma deposit_throw_unchanged:
  "fst (deposit a this) = Inl e \<Longrightarrow> snd (deposit a this) = this"
  by (simp add: deposit_def split: if_splits)

lemma withdrawal_throw_unchanged:
  "fst (withdrawal a this) = Inl e \<Longrightarrow> snd (withdrawal a this) = this"
  by (simp add: withdrawal_def split: if_splits)

lemma account_step_throw_unchanged:
  "fst (account_step c this) = Inl e \<Longrightarrow> snd (account_step c this) = this"
  by (cases c) (simp_all add: deposit_throw_unchanged withdrawal_throw_unchanged)

text \<open>
  C9. The claim: from a new account, after every sequence of \<open>deposit\<close> and
  \<open>withdrawal\<close> calls \<open>getBalance()\<close> is non-negative. The guard \<open>amount <= 0\<close> is
  false for \<open>NaN\<close>, so \<open>deposit(NaN)\<close> does not throw and stores \<open>0 + NaN\<close>: the
  balance is \<open>NaN\<close>, and \<open>0 <= NaN\<close> is false. The same balance is reached without
  \<open>NaN\<close> as an argument, by \<open>deposit(Infinity)\<close> and then \<open>withdrawal(Infinity)\<close>.
\<close>

theorem BankAccount_balance_NaN:
  "deposit NaN new_BankAccount = (Inr (), \<lparr>balance = NaN\<rparr>)
   \<and> getBalance (account_run [Deposit NaN] new_BankAccount) = NaN
   \<and> \<not> js_le (Num 0) (getBalance (account_run [Deposit NaN] new_BankAccount))
   \<and> getBalance (account_run [Deposit PosInf, Withdrawal PosInf] new_BankAccount) = NaN"
  by (simp add: deposit_def withdrawal_def new_BankAccount_def getBalance_def js_sub_def)

section \<open>PaymentProcessor: the guard and the mask\<close>

lemma slice_last4: "slice s (- 4) = drop (length s - 4) s"
  by (simp add: slice_def Let_def max_def nat_diff_distrib')

lemma concat_replicate_single: "concat (replicate k [x]) = replicate k x"
  by (induction k) simp_all

lemma padStart_star: "padStart s n ''*'' = replicate (n - length s) (CHR ''*'') @ s"
  by (simp add: padStart_def concat_replicate_single)

lemma maskCardNumber_eq:
  "4 \<le> length (cardNumber p) \<Longrightarrow>
   maskCardNumber p = replicate (length (cardNumber p) - 4) (CHR ''*'')
                        @ drop (length (cardNumber p) - 4) (cardNumber p)"
  by (simp add: maskCardNumber_def slice_last4 padStart_star)

text \<open>
  C10. \<open>processPayment\<close> throws exactly when the stored amount is \<open><= 0\<close>, and then it
  has printed nothing; otherwise it prints one line, whose card part is the mask. For a
  card number of at least four characters the mask has the card number's length, ends
  with its last four characters and is \<open>*\<close> at every earlier position.
\<close>

theorem processPayment_throws_and_masks:
  "((\<exists>e. snd (processPayment p) = Inl e) \<longleftrightarrow> js_le (amount p) (Num 0))
   \<and> (js_le (amount p) (Num 0) \<longrightarrow>
        processPayment p = ([], Inl (Error ''Payment amount must be positive'')))
   \<and> (js_le (amount p) (Num 0) \<longrightarrow> fst (processPayment p) = [])
   \<and> (\<not> js_le (amount p) (Num 0) \<longrightarrow>
        processPayment p = ([[Str ''Processing payment of $'', Val (amount p), Str '' for card '',
                               Str (maskCardNumber p)]], Inr ()))
   \<and> (4 \<le> length (cardNumber p) \<longrightarrow>
        length (maskCardNumber p) = length (cardNumber p)
        \<and> drop (length (cardNumber p) - 4) (maskCardNumber p)
            = drop (length (cardNumber p) - 4) (cardNumber p)
        \<and> (\<forall>i < length (cardNumber p) - 4. maskCardNumber p ! i = CHR ''*''))"
  by (auto simp: processPayment_def maskCardNumber_eq nth_append)

text \<open>
  The witness of C10: the payment of the example, \<open>new PaymentProcessor('1234567812345678', 100)\<close>,
  and a payment of amount 0, which throws and prints nothing.
\<close>

theorem processPayment_throws_and_masks_witness:
  "\<not> js_le (amount (new_PaymentProcessor ''1234567812345678'' (Num 100))) (Num 0)
   \<and> 4 \<le> length (cardNumber (new_PaymentProcessor ''1234567812345678'' (Num 100)))
   \<and> processPayment (new_PaymentProcessor ''1234567812345678'' (Num 100))
       = ([[Str ''Processing payment of $'', Val (Num 100), Str '' for card '',
            Str ''************5678'']], Inr ())
   \<and> maskCardNumber (new_PaymentProcessor ''1234567812345678'' (Num 100)) ! 11 = CHR ''*''
   \<and> js_le (amount (new_PaymentProcessor ''1234567812345678'' (Num 0))) (Num 0)
   \<and> processPayment (new_PaymentProcessor ''1234567812345678'' (Num 0))
       = ([], Inl (Error ''Payment amount must be positive''))
   \<and> fst (processPayment (new_PaymentProcessor ''1234567812345678'' (Num 0))) = []"
  using processPayment_throws_and_masks [of "new_PaymentProcessor ''1234567812345678'' (Num 100)"]
        processPayment_throws_and_masks [of "new_PaymentProcessor ''1234567812345678'' (Num 0)"]
  by (simp add: new_PaymentProcessor_def maskCardNumber_def slice_def padStart_def processPayment_def)

section \<open>Status and OrderStatus: identity and codes\<close>

lemma Status_statics_eval:
  "Status_statics = ((0, 1, 2),
     [\<lparr>code = ''PENDING'', label = ''Waiting to start''\<rparr>,
      \<lparr>code = ''IN_PROGRESS'', label = ''Work in progress''\<rparr>,
      \<lparr>code = ''COMPLETED'', label = ''Task completed''\<rparr>])"
  by (simp add: Status_statics_def Status_new_def)

lemma Status_refs: "Pending = 0" "InProgress = 1" "Completed = 2"
  by (simp_all add: Pending_def InProgress_def Completed_def Status_statics_eval)

lemma Status_heap_eval:
  "Status_heap = [\<lparr>code = ''PENDING'', label = ''Waiting to start''\<rparr>,
      \<lparr>code = ''IN_PROGRESS'', label = ''Work in progress''\<rparr>,
      \<lparr>code = ''COMPLETED'', label = ''Task completed''\<rparr>]"
  by (simp add: Status_heap_def Status_statics_eval)

lemma Status_codes:
  "code_of Status_heap Pending = Some ''PENDING''"
  "code_of Status_heap InProgress = Some ''IN_PROGRESS''"
  "code_of Status_heap Completed = Some ''COMPLETED''"
  by (simp_all add: code_of_def deref_def Status_heap_eval Status_refs)

text \<open>
  C5, as the claim states it, fails: identity in the class is the reference, not the
  code. One more \<open>Status\<close> constructed with the code and the label of \<open>Completed\<close> has
  the same code and the same label as \<open>Completed\<close>, and yet it is not \<open>==\<close> to
  \<open>Completed\<close> and \<open>isFinal\<close> is false of it.
\<close>

theorem Status_same_code_not_final:
  "fst (Status_new ''COMPLETED'' ''Task completed'' Status_heap) = 3
   \<and> code_of (snd (Status_new ''COMPLETED'' ''Task completed'' Status_heap)) 3
       = code_of (snd (Status_new ''COMPLETED'' ''Task completed'' Status_heap)) Completed
   \<and> label_of (snd (Status_new ''COMPLETED'' ''Task completed'' Status_heap)) 3
       = label_of (snd (Status_new ''COMPLETED'' ''Task completed'' Status_heap)) Completed
   \<and> \<not> ref_eq 3 Completed
   \<and> \<not> isFinal 3"
  by (simp add: Status_new_def Status_heap_eval Status_refs ref_eq_def isFinal_def code_of_def
      label_of_def deref_def)

text \<open>
  C5, amended. The class compares its instances by reference (\<open>this == Status.Completed\<close>):
  two references are equal exactly when they are the same reference, and \<open>isFinal\<close>
  holds exactly of the reference \<open>Completed\<close>, whatever the store holds. On the three
  static instances this agrees with the codes: two of them are equal exactly when their
  codes are equal, and \<open>isFinal\<close> holds exactly of the one with the code of
  \<open>Completed\<close>. Objects with different codes are never equal. An object constructed
  after the static instances, with any code and any label, is equal to none of them and
  is not final.
\<close>

theorem Status_identity_is_reference:
  "(ref_eq c d \<longleftrightarrow> c = d)
   \<and> (isFinal c \<longleftrightarrow> c = Completed)
   \<and> (a \<in> set Status_variants \<and> b \<in> set Status_variants \<longrightarrow>
        (ref_eq a b \<longleftrightarrow> code_of Status_heap a = code_of Status_heap b))
   \<and> (a \<in> set Status_variants \<longrightarrow>
        (isFinal a \<longleftrightarrow> code_of Status_heap a = code_of Status_heap Completed))
   \<and> (code_of h c \<noteq> code_of h d \<longrightarrow> \<not> ref_eq c d)
   \<and> (length Status_heap \<le> length h \<longrightarrow>
        \<not> isFinal (fst (Status_new k l h))
        \<and> (\<forall>v \<in> set Status_variants. \<not> ref_eq (fst (Status_new k l h)) v))"
proof -
  have inj: "code_of Status_heap x = code_of Status_heap y \<longleftrightarrow> x = y"
    if "x \<in> set Status_variants" "y \<in> set Status_variants" for x y
    using that by (auto simp: Status_variants_def Status_codes)
  have fin: "Completed \<in> set Status_variants" by (simp add: Status_variants_def)
  have statics: "(a \<in> set Status_variants \<and> b \<in> set Status_variants \<longrightarrow>
        (ref_eq a b \<longleftrightarrow> code_of Status_heap a = code_of Status_heap b))
      \<and> (a \<in> set Status_variants \<longrightarrow>
        (isFinal a \<longleftrightarrow> code_of Status_heap a = code_of Status_heap Completed))"
    using inj fin by (auto simp: ref_eq_def isFinal_def)
  have below: "v < length Status_heap" if "v \<in> set Status_variants" for v
    using that by (auto simp: Status_variants_def Status_refs Status_heap_eval)
  have fresh: "length Status_heap \<le> length h \<longrightarrow>
        \<not> isFinal (fst (Status_new k l h))
        \<and> (\<forall>v \<in> set Status_variants. \<not> ref_eq (fst (Status_new k l h)) v)"
    using below fin by (fastforce simp: isFinal_def ref_eq_def Status_new_def)
  have refs: "(ref_eq c d \<longleftrightarrow> c = d) \<and> (isFinal c \<longleftrightarrow> c = Completed)
      \<and> (code_of h c \<noteq> code_of h d \<longrightarrow> \<not> ref_eq c d)"
    by (auto simp: ref_eq_def isFinal_def)
  from refs statics fresh show ?thesis by blast
qed

text \<open>
  The witness of C5 amended: \<open>InProgress\<close> against \<open>Completed\<close>, and a fourth object
  with the code and label of \<open>Completed\<close>, in the store the static initialisers left.
\<close>

theorem Status_identity_is_reference_witness:
  "InProgress \<in> set Status_variants \<and> Completed \<in> set Status_variants
   \<and> \<not> ref_eq InProgress Completed
   \<and> code_of Status_heap InProgress \<noteq> code_of Status_heap Completed
   \<and> \<not> isFinal InProgress
   \<and> length Status_heap \<le> length Status_heap
   \<and> fst (Status_new ''COMPLETED'' ''Task completed'' Status_heap) = 3
   \<and> \<not> isFinal (fst (Status_new ''COMPLETED'' ''Task completed'' Status_heap))
   \<and> \<not> ref_eq (fst (Status_new ''COMPLETED'' ''Task completed'' Status_heap)) Completed"
  using Status_identity_is_reference [of InProgress Completed InProgress Completed
          Status_heap "''COMPLETED''" "''Task completed''"]
  by (simp add: Status_variants_def Status_new_def code_of_def deref_def
      Status_heap_eval Status_refs ref_eq_def isFinal_def)

text \<open>
  C6, as the claim states it, fails: the constructor checks nothing. Constructing one
  more \<open>Status\<close> with the code of \<open>Pending\<close> returns a new object, distinct from
  \<open>Pending\<close> and with the same code; nothing is thrown.
\<close>

theorem Status_duplicate_code_constructed:
  "Status_new ''PENDING'' ''Waiting to start'' Status_heap
     = (3, Status_heap @ [\<lparr>code = ''PENDING'', label = ''Waiting to start''\<rparr>])
   \<and> \<not> ref_eq 3 Pending
   \<and> code_of (snd (Status_new ''PENDING'' ''Waiting to start'' Status_heap)) 3 = Some ''PENDING''
   \<and> code_of (snd (Status_new ''PENDING'' ''Waiting to start'' Status_heap)) Pending = Some ''PENDING''"
  by (simp add: Status_new_def Status_heap_eval Status_refs ref_eq_def code_of_def deref_def)

text \<open>
  C6, amended. The declared variants of \<open>Status\<close> have pairwise different codes, and so
  have the members of \<open>OrderStatus\<close>, which are all its values. The constructor never
  fails: it returns a fresh reference to an object with the code and label it was given,
  and it leaves every object already in the store as it was.
\<close>

theorem Status_codes_unique:
  "distinct (map (code_of Status_heap) Status_variants)
   \<and> distinct (map OrderStatus_value OrderStatus_members)
   \<and> set OrderStatus_members = UNIV
   \<and> fst (Status_new c l h) = length h
   \<and> deref (snd (Status_new c l h)) (length h) = Some \<lparr>code = c, label = l\<rparr>
   \<and> (r < length h \<longrightarrow> deref (snd (Status_new c l h)) r = deref h r)"
proof -
  have "set OrderStatus_members = UNIV"
  proof -
    have "x \<in> set OrderStatus_members" for x
      by (cases x) (simp_all add: OrderStatus_members_def)
    then show ?thesis by blast
  qed
  then show ?thesis
    by (simp add: Status_variants_def Status_codes OrderStatus_members_def Status_new_def
        deref_def nth_append)
qed

text \<open>The witness of C6 amended: \<open>Pending\<close> is untouched by one more construction.\<close>

theorem Status_codes_unique_witness:
  "Pending < length Status_heap
   \<and> deref (snd (Status_new ''PENDING'' ''again'' Status_heap)) Pending = deref Status_heap Pending
   \<and> deref Status_heap Pending = Some \<lparr>code = ''PENDING'', label = ''Waiting to start''\<rparr>
   \<and> distinct (map (code_of Status_heap) Status_variants)"
  using Status_codes_unique [of "''PENDING''" "''again''" Status_heap Pending]
  by (simp add: Status_heap_eval Status_refs deref_def)


section \<open>checkoutService: which gateway a checkout reaches\<close>

lemma paymentGateway_SomeD:
  "paymentGateway h svc = Some g \<Longrightarrow> deref h svc = Some (checkoutService g)"
  by (auto simp: paymentGateway_def split: option.splits object.splits)

lemma checkout_bound:
  "paymentGateway h svc = Some g \<Longrightarrow> checkout svc a h = (initiatePayment g a h, h)"
  by (simp add: checkout_def paymentGateway_SomeD)

lemma checkouts_bound:
  "paymentGateway h svc = Some g \<Longrightarrow>
   checkouts svc as h = (map (\<lambda>a. initiatePayment g a h) as, h)"
  by (induction as) (simp_all add: checkout_bound)

lemma new_checkoutService_bound:
  "new_checkoutService x h = (svc, h1) \<Longrightarrow> paymentGateway h1 svc = Some x"
  by (auto simp: new_checkoutService_def paymentGateway_def deref_def)

lemma setPaymentGateway_bound:
  assumes "paymentGateway h svc = Some x" "setPaymentGateway svc y h = (r, h2)"
  shows "r = Inr ()" "h2 = h[svc := checkoutService y]" "paymentGateway h2 svc = Some y"
proof -
  from assms(1) have d: "deref h svc = Some (checkoutService x)" by (rule paymentGateway_SomeD)
  with assms(2) show "r = Inr ()" and h2: "h2 = h[svc := checkoutService y]"
    by (auto simp: setPaymentGateway_def)
  from d have "svc < length h" by (simp add: deref_def split: if_splits)
  with h2 show "paymentGateway h2 svc = Some y"
    by (simp add: paymentGateway_def deref_def)
qed

text \<open>
  C3. A service constructed with gateway \<open>x\<close> holds \<open>x\<close>, and every checkout of a
  service that holds a gateway is that gateway's \<open>initiatePayment\<close> and leaves the store
  as it is, so any number of checkouts in a row all reach it. After
  \<open>setPaymentGateway(y)\<close> the service holds \<open>y\<close> and every checkout reaches \<open>y\<close>. The
  service has one field, so it holds one gateway at a time.
\<close>

theorem checkout_uses_bound_gateway:
  "(new_checkoutService x h = (svc, h1) \<longrightarrow>
      paymentGateway h1 svc = Some x
      \<and> checkouts svc as h1 = (map (\<lambda>a. initiatePayment x a h1) as, h1))
   \<and> (paymentGateway h' svc' = Some x' \<longrightarrow>
      checkouts svc' as h' = (map (\<lambda>a. initiatePayment x' a h') as, h'))
   \<and> (paymentGateway h' svc' = Some x' \<and> setPaymentGateway svc' y h' = (r, h2) \<longrightarrow>
      r = Inr () \<and> paymentGateway h2 svc' = Some y
      \<and> checkouts svc' as h2 = (map (\<lambda>a. initiatePayment y a h2) as, h2))"
proof (intro conjI impI)
  assume n: "new_checkoutService x h = (svc, h1)"
  then show b: "paymentGateway h1 svc = Some x" by (rule new_checkoutService_bound)
  then show "checkouts svc as h1 = (map (\<lambda>a. initiatePayment x a h1) as, h1)"
    by (rule checkouts_bound)
next
  assume "paymentGateway h' svc' = Some x'"
  then show "checkouts svc' as h' = (map (\<lambda>a. initiatePayment x' a h') as, h')"
    by (rule checkouts_bound)
next
  assume a: "paymentGateway h' svc' = Some x' \<and> setPaymentGateway svc' y h' = (r, h2)"
  then show "r = Inr ()" using setPaymentGateway_bound(1) by blast
  from a show b: "paymentGateway h2 svc' = Some y" using setPaymentGateway_bound(3) by blast
  then show "checkouts svc' as h2 = (map (\<lambda>a. initiatePayment y a h2) as, h2)"
    by (rule checkouts_bound)
qed

text \<open>
  The witness of C3, on the example's script: the Stripe gateway is object 0, the
  service object 1, the Razorpay gateway object 2.
\<close>

theorem checkout_uses_bound_gateway_witness:
  "new_checkoutService 0 [StripePayment] = (1, [StripePayment, checkoutService 0])
   \<and> paymentGateway [StripePayment, checkoutService 0] 1 = Some 0
   \<and> checkouts 1 [Num 120, Num 7] [StripePayment, checkoutService 0]
       = ([([[Str ''Payment proccessing via Strip : '', Val (Num 120), Str '' '']], Inr ()),
           ([[Str ''Payment proccessing via Strip : '', Val (Num 7), Str '' '']], Inr ())],
          [StripePayment, checkoutService 0])
   \<and> paymentGateway [StripePayment, checkoutService 0, RazorPayPayment] 1 = Some 0
   \<and> setPaymentGateway 1 2 [StripePayment, checkoutService 0, RazorPayPayment]
       = (Inr (), [StripePayment, checkoutService 2, RazorPayPayment])
   \<and> checkouts 1 [Num 180] [StripePayment, checkoutService 2, RazorPayPayment]
       = ([([[Str ''Payment processing via Razorpay : '', Val (Num 180)]], Inr ())],
          [StripePayment, checkoutService 2, RazorPayPayment])"
  using checkout_uses_bound_gateway [of 0 "[StripePayment]" 1 "[StripePayment, checkoutService 0]"
          "[Num 120, Num 7]" "[StripePayment, checkoutService 0, RazorPayPayment]" 1 0 2
          "Inr ()" "[StripePayment, checkoutService 2, RazorPayPayment]"]
        checkout_uses_bound_gateway [of 0 "[StripePayment]" 1 "[StripePayment, checkoutService 0]"
          "[Num 180]" "[StripePayment, checkoutService 0, RazorPayPayment]" 1 0 2
          "Inr ()" "[StripePayment, checkoutService 2, RazorPayPayment]"]
  by (simp add: new_checkoutService_def paymentGateway_def deref_def setPaymentGateway_def
      initiatePayment_def)

text \<open>
  C7. \<open>setPaymentGateway\<close> on a service that holds \<open>x\<close> writes the service's field and
  nothing else: every other object of the store is as before, a call through the
  reference \<open>x\<close> prints what it printed before, and the service's next checkout
  reaches \<open>y\<close>.
\<close>

theorem setPaymentGateway_frame:
  "paymentGateway h svc = Some x \<and> setPaymentGateway svc y h = (r, h2) \<longrightarrow>
     length h2 = length h
     \<and> (\<forall>p. p \<noteq> svc \<longrightarrow> deref h2 p = deref h p)
     \<and> initiatePayment x a h2 = initiatePayment x a h
     \<and> paymentGateway h2 svc = Some y
     \<and> checkout svc a h2 = (initiatePayment y a h2, h2)"
proof (intro impI)
  assume a: "paymentGateway h svc = Some x \<and> setPaymentGateway svc y h = (r, h2)"
  then have h2: "h2 = h[svc := checkoutService y]" and b: "paymentGateway h2 svc = Some y"
    using setPaymentGateway_bound by blast+
  from a have d: "deref h svc = Some (checkoutService x)" by (simp add: paymentGateway_SomeD)
  have len: "length h2 = length h" using h2 by simp
  have frame: "\<forall>p. p \<noteq> svc \<longrightarrow> deref h2 p = deref h p"
    using h2 by (simp add: deref_def)
  have same: "initiatePayment x a h2 = initiatePayment x a h"
  proof (cases "x = svc")
    case True
    with d h2 show ?thesis by (simp add: initiatePayment_def deref_def split: if_splits)
  next
    case False
    with frame show ?thesis by (simp add: initiatePayment_def)
  qed
  from len frame same b checkout_bound[OF b]
  show "length h2 = length h
     \<and> (\<forall>p. p \<noteq> svc \<longrightarrow> deref h2 p = deref h p)
     \<and> initiatePayment x a h2 = initiatePayment x a h
     \<and> paymentGateway h2 svc = Some y
     \<and> checkout svc a h2 = (initiatePayment y a h2, h2)" by simp
qed

text \<open>
  The witness of C7, on the example's script: after the service is given the Razorpay
  gateway, \<open>stripeGateway\<close> still refers to a \<open>StripePayment\<close> and prints Stripe's line.
\<close>

theorem setPaymentGateway_frame_witness:
  "paymentGateway [StripePayment, checkoutService 0, RazorPayPayment] 1 = Some 0
   \<and> setPaymentGateway 1 2 [StripePayment, checkoutService 0, RazorPayPayment]
       = (Inr (), [StripePayment, checkoutService 2, RazorPayPayment])
   \<and> deref [StripePayment, checkoutService 2, RazorPayPayment] 0 = Some StripePayment
   \<and> initiatePayment 0 (Num 120) [StripePayment, checkoutService 2, RazorPayPayment]
       = ([[Str ''Payment proccessing via Strip : '', Val (Num 120), Str '' '']], Inr ())
   \<and> checkout 1 (Num 180) [StripePayment, checkoutService 2, RazorPayPayment]
       = (([[Str ''Payment processing via Razorpay : '', Val (Num 180)]], Inr ()),
          [StripePayment, checkoutService 2, RazorPayPayment])"
  using setPaymentGateway_frame [of "[StripePayment, checkoutService 0, RazorPayPayment]" 1 0 2
          "Inr ()" "[StripePayment, checkoutService 2, RazorPayPayment]" "Num 120"]
        setPaymentGateway_frame [of "[StripePayment, checkoutService 0, RazorPayPayment]" 1 0 2
          "Inr ()" "[StripePayment, checkoutService 2, RazorPayPayment]" "Num 180"]
  by (simp add: paymentGateway_def deref_def setPaymentGateway_def initiatePayment_def)

section \<open>MediaPlayer and Order: use before anything is bound\<close>

lemma processPayment_returns_true: "snd (PaymentMethod_processPayment pm) = Inr True"
  by (cases pm) simp_all

text \<open>
  C4, as the claim states it, fails: on a player into which no media was ever loaded,
  \<open>playMedia\<close> throws nothing. It prints \<open>No media loaded\<close> and returns.
\<close>

theorem playMedia_unloaded_returns:
  "playMedia new_MediaPlayer = (([[Str ''No media loaded'']], Inr ()), new_MediaPlayer)"
  by (simp add: playMedia_def new_MediaPlayer_def)

text \<open>
  C4, amended. On a new \<open>MediaPlayer\<close> each of \<open>playMedia\<close>, \<open>pauseMedia\<close> and
  \<open>stopMedia\<close> prints \<open>No media loaded\<close>, returns without an error and leaves the player
  as it was. \<open>checkout\<close> on a new \<open>Order\<close> prints the order line and then fails with the
  runtime's \<open>TypeError\<close>, returning no value. After \<open>loadMedia\<close>, or
  \<open>setPaymentMethod\<close>, the call goes to the object that was given.
\<close>

theorem unbound_use_MediaPlayer_Order:
  "playMedia new_MediaPlayer = (([[Str ''No media loaded'']], Inr ()), new_MediaPlayer)
   \<and> pauseMedia new_MediaPlayer = (([[Str ''No media loaded'']], Inr ()), new_MediaPlayer)
   \<and> stopMedia new_MediaPlayer = (([[Str ''No media loaded'']], Inr ()), new_MediaPlayer)
   \<and> Order_checkout (new_Order i its)
       = (([[Str ''Processing order '', Str i, Str '' with '', Val (Num (real (length its))),
             Str '' items'']], Inl TypeError), new_Order i its)
   \<and> fst (playMedia (snd (loadMedia m p))) = (play m, Inr ())
   \<and> fst (pauseMedia (snd (loadMedia m p))) = (pause m, Inr ())
   \<and> fst (stopMedia (snd (loadMedia m p))) = (stop m, Inr ())
   \<and> fst (Order_checkout (setPaymentMethod pm (new_Order i its)))
       = ([Str ''Processing order '', Str i, Str '' with '', Val (Num (real (length its))),
           Str '' items''] # fst (PaymentMethod_processPayment pm), Inr True)"
  by (simp add: playMedia_def pauseMedia_def stopMedia_def new_MediaPlayer_def loadMedia_def
      Order_checkout_def new_Order_def setPaymentMethod_def processPayment_returns_true)

section \<open>AudioOnlyPlayer: operations it declares and does not perform\<close>

text \<open>
  C8. The claim: an implementation of a contract performs every declared operation or
  fails with a declared failure. \<open>AudioOnlyPlayer\<close> implements the seven operations of
  \<open>MediaPlayer\<close>; three of them throw \<open>Error("Not supported.")\<close>, which the interface
  does not declare, and \<open>stopVideo\<close> returns having done nothing. The segregated
  sibling \<open>SilentVideoPlayer\<close> performs the same operations.
\<close>

theorem AudioOnlyPlayer_not_supported:
  "AudioOnlyPlayer_playVideo ''movie.mp4'' = ([], Inl (Error ''Not supported.''))
   \<and> AudioOnlyPlayer_stopVideo = ([], Inr ())
   \<and> AudioOnlyPlayer_adjustVideoBrightness (Num 50) = ([], Inl (Error ''Not supported.''))
   \<and> AudioOnlyPlayer_displaySubtitles ''movie.srt'' = ([], Inl (Error ''Not supported.''))
   \<and> SilentVideoPlayer_playVideo ''movie.mp4''
       = ([[Str ''SilentVideoPlayer: Playing video - '', Str ''movie.mp4'']], Inr ())
   \<and> SilentVideoPlayer_stopVideo = ([[Str ''SilentVideoPlayer: Video stopped.'']], Inr ())"
  by (simp add: AudioOnlyPlayer_playVideo_def AudioOnlyPlayer_stopVideo_def
      AudioOnlyPlayer_adjustVideoBrightness_def AudioOnlyPlayer_displaySubtitles_def
      SilentVideoPlayer_playVideo_def SilentVideoPlayer_stopVideo_def)

end
